theory Spec2Isabelle
  imports Complex_Main
begin

section \<open>Python strings\<close>

text \<open>
  A Python \<open>str\<close> is a sequence of Unicode code points, and \<open>len\<close>, slicing,
  \<open>split\<close> and \<open>strip\<close> all count code points. A string is therefore modelled
  as the list of its code points; \<open>str\<close> reads an ASCII literal.
\<close>

type_synonym pystr = "nat list"

definition str :: "string \<Rightarrow> pystr" where
  "str s = map of_char s"

text \<open>
  \<open>isspace\<close> is the whitespace test that \<open>str.strip()\<close> applies when it is called
  without an argument: the code points U+0009..U+000D, U+001C..U+0020, U+0085, U+00A0,
  U+1680, U+2000..U+200A, U+2028, U+2029, U+202F, U+205F and U+3000.
\<close>

definition isspace :: "nat \<Rightarrow> bool" where
  "isspace c \<longleftrightarrow>
     (9 \<le> c \<and> c \<le> 13) \<or> (28 \<le> c \<and> c \<le> 32) \<or> c = 133 \<or> c = 160 \<or> c = 5760 \<or>
     (8192 \<le> c \<and> c \<le> 8202) \<or> c = 8232 \<or> c = 8233 \<or> c = 8239 \<or> c = 8287 \<or> c = 12288"

definition lstrip :: "pystr \<Rightarrow> pystr" where
  "lstrip s = dropWhile isspace s"

definition rstrip :: "pystr \<Rightarrow> pystr" where
  "rstrip s = rev (dropWhile isspace (rev s))"

text \<open>\<open>s.strip()\<close>: whitespace removed at both ends.\<close>

definition strip :: "pystr \<Rightarrow> pystr" where
  "strip s = lstrip (rstrip s)"

text \<open>
  \<open>s.split(c)\<close> for a separator of one character: the fragments between the
  occurrences of \<open>c\<close>, empty fragments included; \<open>''.split('.')\<close> is \<open>['']\<close>.
\<close>

fun split_on :: "nat \<Rightarrow> pystr \<Rightarrow> pystr list" where
  "split_on c [] = [[]]"
| "split_on c (x # xs) =
     (if x = c then [] # split_on c xs
      else (case split_on c xs of
              [] \<Rightarrow> [[x]]
            | w # ws \<Rightarrow> (x # w) # ws))"

text \<open>\<open>sep.join(xs)\<close>.\<close>

fun join :: "pystr \<Rightarrow> pystr list \<Rightarrow> pystr" where
  "join sep [] = []"
| "join sep [x] = x"
| "join sep (x # y # ys) = x @ sep @ join sep (y # ys)"

text \<open>\<open>s.startswith(p)\<close> and \<open>p in s\<close> (substring test).\<close>

definition startswith :: "pystr \<Rightarrow> pystr \<Rightarrow> bool" where
  "startswith s p \<longleftrightarrow> take (length p) s = p"

fun contains :: "pystr \<Rightarrow> pystr \<Rightarrow> bool" where
  "contains [] p = (p = [])"
| "contains (x # xs) p = (startswith (x # xs) p \<or> contains xs p)"

section \<open>The summarizer (lines 122 to 126 of \<open>index\<close>)\<close>

definition period :: nat where
  "period = 46"

definition max_summarized_sentences :: nat where
  "max_summarized_sentences = 5"

text \<open>
  \<^verbatim>\<open>sentences = [s.strip() for s in article_text.split('.') if s.strip()]\<close>
\<close>

definition sentences :: "pystr \<Rightarrow> pystr list" where
  "sentences article_text =
     map strip (filter (\<lambda>s. strip s \<noteq> []) (split_on period article_text))"

text \<open>
  \<^verbatim>\<open>summary = ". ".join(sentences[:max_summarized_sentences])
  if not summary:
      summary = article_text[:800] + ("..." if len(article_text) > 800 else "")\<close>
\<close>

definition fallback_summary :: "pystr \<Rightarrow> pystr" where
  "fallback_summary article_text =
     take 800 article_text @ (if length article_text > 800 then str ''...'' else [])"

definition summarize :: "pystr \<Rightarrow> pystr" where
  "summarize article_text =
     (let summary = join (str ''. '') (take max_summarized_sentences (sentences article_text))
      in if summary = [] then fallback_summary article_text else summary)"


section \<open>Sentiment (lines 130 to 143 of \<open>index\<close>)\<close>

text \<open>
  The polarity is a Python float that the handler only compares with zero; it is
  modelled as a real number. \<open>None\<close> stands for the classifier raising.
  \<^verbatim>\<open>try:
      analysis = TextBlob(article_text)
      polarity = analysis.sentiment.polarity
  except Exception as e:
      polarity = 0.0\<close>
\<close>

definition polarity_of :: "real option \<Rightarrow> real" where
  "polarity_of outcome = (case outcome of None \<Rightarrow> 0 | Some p \<Rightarrow> p)"

text \<open>
  The three labels: the category name, a space and the glyph
  (U+1F60A, U+1F61F, U+1F610).
\<close>

definition sentiment_label :: "real \<Rightarrow> pystr" where
  "sentiment_label polarity =
     (if polarity > 0 then str ''happy '' @ [128522]
      else if polarity < 0 then str ''sad '' @ [128543]
      else str ''neutral '' @ [128528])"

section \<open>The libraries, as far as one request sees them\<close>

datatype py_error = ValueError

text \<open>
  \<open>requests.get\<close> followed by nothing else: either it raised a
  \<open>RequestException\<close> (connection error, timeout, invalid URL) or it returned a
  response, of which the handler reads the status code and the \<open>Content-Type\<close>
  header (\<open>None\<close> when the header is absent).
\<close>

datatype probe = RequestException | Response nat "pystr option"

text \<open>
  \<open>article.publish_date\<close> with what \<open>strftime('%B %d, %Y')\<close> makes of it: absent
  (falsy), formatted, or an exception while formatting.
\<close>

datatype publish_date = No_date | Date_formatted pystr | Date_raises

text \<open>
  What \<open>newspaper.Article(url)\<close> does for one URL: whether \<open>download()\<close>,
  \<open>parse()\<close> and \<open>nlp()\<close> raise, the \<open>is_downloaded\<close> flag, and the extracted
  fields. An absent \<open>text\<close> or \<open>top_image\<close> is \<open>None\<close>.
\<close>

record article =
  download_raises :: bool
  is_downloaded :: bool
  parse_raises :: bool
  nlp_raises :: bool
  art_title :: pystr
  art_authors :: "pystr list"
  art_publish_date :: publish_date
  art_text :: "pystr option"
  art_top_image :: "pystr option"

text \<open>
  The world of one request: the verdict of \<open>validators.url\<close> (its truthiness), the
  outcome of the HTTP probe, the article extraction and the polarity that
  \<open>TextBlob\<close> computes (\<open>None\<close> when it raises), the server clock, and the two
  table-driven checks of \<open>urllib.parse\<close> (\<open>ipaddress\<close> and NFKC normalisation).
\<close>

record world =
  validators_url :: "pystr \<Rightarrow> bool"
  requests_get :: "pystr \<Rightarrow> probe"
  newspaper :: "pystr \<Rightarrow> article"
  textblob_polarity :: "pystr \<Rightarrow> real option"
  bracketed_host_ok :: "pystr \<Rightarrow> bool"
  nfkc :: "pystr \<Rightarrow> pystr"
  now :: nat

section \<open>\<open>urlparse(url).netloc\<close>\<close>

text \<open>
  \<open>get_website_name\<close> reads the \<open>netloc\<close> component that the standard library's
  \<open>urllib.parse.urlparse\<close> (CPython 3.11) computes. The library strips leading C0
  control characters and spaces, removes tab, carriage return and newline, splits a
  scheme off, and, when the rest starts with two slashes, takes the characters up to the
  first slash, question mark or hash sign. It raises \<open>ValueError\<close> on unbalanced
  brackets, on an invalid bracketed host and on a netloc that NFKC normalisation
  changes into one with a delimiter.
\<close>

definition c0_control_or_space :: "nat \<Rightarrow> bool" where
  "c0_control_or_space c \<longleftrightarrow> c \<le> 32"

definition unsafe_url_byte :: "nat \<Rightarrow> bool" where
  "unsafe_url_byte c \<longleftrightarrow> c = 9 \<or> c = 13 \<or> c = 10"

definition ascii_alpha :: "nat \<Rightarrow> bool" where
  "ascii_alpha c \<longleftrightarrow> (65 \<le> c \<and> c \<le> 90) \<or> (97 \<le> c \<and> c \<le> 122)"

definition scheme_char :: "nat \<Rightarrow> bool" where
  "scheme_char c \<longleftrightarrow> ascii_alpha c \<or> (48 \<le> c \<and> c \<le> 57) \<or> c = 43 \<or> c = 45 \<or> c = 46"

text \<open>
  \<^verbatim>\<open>i = url.find(':')
  if i > 0 and url[0].isascii() and url[0].isalpha():
      for c in url[:i]:
          if c not in scheme_chars: break
      else:
          scheme, url = url[:i].lower(), url[i+1:]\<close>
\<close>

definition strip_scheme :: "pystr \<Rightarrow> pystr" where
  "strip_scheme url =
     (let i = length (takeWhile (\<lambda>c. c \<noteq> 58) url)
      in if 58 \<in> set url \<and> i > 0 \<and> (case url of [] \<Rightarrow> False | c # _ \<Rightarrow> ascii_alpha c) \<and>
            list_all scheme_char (take i url)
         then drop (Suc i) url else url)"

text \<open>The first component of \<open>_splitnetloc(url, 2)\<close>.\<close>

definition splitnetloc :: "pystr \<Rightarrow> pystr" where
  "splitnetloc url = takeWhile (\<lambda>c. c \<noteq> 47 \<and> c \<noteq> 63 \<and> c \<noteq> 35) (drop 2 url)"

text \<open>\<open>netloc.partition('[')[2].partition(']')[0]\<close>\<close>

definition bracketed_host :: "pystr \<Rightarrow> pystr" where
  "bracketed_host netloc = takeWhile (\<lambda>c. c \<noteq> 93) (drop 1 (dropWhile (\<lambda>c. c \<noteq> 91) netloc))"

text \<open>\<open>_checknetloc\<close> returns normally.\<close>

definition checknetloc_ok :: "world \<Rightarrow> pystr \<Rightarrow> bool" where
  "checknetloc_ok W netloc \<longleftrightarrow>
     (if netloc = [] \<or> list_all (\<lambda>c. c < 128) netloc then True
      else let n = filter (\<lambda>c. c \<noteq> 64 \<and> c \<noteq> 58 \<and> c \<noteq> 35 \<and> c \<noteq> 63) netloc;
               netloc2 = nfkc W n
           in if n = netloc2 then True
              else \<not> list_ex (\<lambda>c. c = 47 \<or> c = 63 \<or> c = 35 \<or> c = 64 \<or> c = 58) netloc2)"

definition urlparse_netloc :: "world \<Rightarrow> pystr \<Rightarrow> py_error + pystr" where
  "urlparse_netloc W url0 =
     (let url = strip_scheme
                  (filter (\<lambda>c. \<not> unsafe_url_byte c) (dropWhile c0_control_or_space url0))
      in if take 2 url = str ''//'' then
           (let netloc = splitnetloc url
            in if (91 \<in> set netloc \<and> 93 \<notin> set netloc) \<or> (93 \<in> set netloc \<and> 91 \<notin> set netloc)
               then Inl ValueError
               else if 91 \<in> set netloc \<and> 93 \<in> set netloc \<and>
                       \<not> bracketed_host_ok W (bracketed_host netloc)
               then Inl ValueError
               else if \<not> checknetloc_ok W netloc then Inl ValueError
               else Inr netloc)
         else Inr [])"

text \<open>
  \<^verbatim>\<open>def get_website_name(url):
      parsed_url = urlparse(url)
      domain = parsed_url.netloc
      if domain.startswith("www."):
          domain = domain[4:]
      return domain\<close>
\<close>

definition get_website_name :: "world \<Rightarrow> pystr \<Rightarrow> py_error + pystr" where
  "get_website_name W url =
     (case urlparse_netloc W url of
        Inl e \<Rightarrow> Inl e
      | Inr domain \<Rightarrow> Inr (if startswith domain (str ''www.'') then drop 4 domain else domain))"


section \<open>The request handler \<open>index\<close>\<close>

datatype http_method = GET | POST

text \<open>
  A request: its method and the form field \<open>url\<close> (\<open>None\<close> when the form
  has no such field, for which \<open>request.form.get('url', '')\<close> gives the empty string).
\<close>

record request =
  request_method :: http_method
  form_url :: "pystr option"

text \<open>The keyword arguments that \<open>render_template\<close> receives for a result page.\<close>

record result =
  title :: pystr
  authors :: pystr
  publish_date :: pystr
  summary :: pystr
  top_image :: "pystr option"
  sentiment :: pystr
  rendered_at :: nat

text \<open>
  How a request ends: a redirect to the input form with one flashed message, the
  result page, the bare input form (GET), or an exception that no \<open>except\<close> clause of
  the handler catches.
\<close>

datatype response =
    Redirect_index pystr
  | Render_result result
  | Render_form nat
  | Uncaught py_error

text \<open>
  What the handler does on the way, in order: the HTTP probe, the calls on the article,
  the sentiment classifier, and the lines it writes to the server log.
\<close>

datatype effect =
    Requests_get pystr
  | Article_download pystr
  | Article_parse
  | Article_nlp
  | TextBlob_call pystr
  | Log_warning
  | Log_error

definition msg_invalid_url :: pystr where
  "msg_invalid_url = str ''Please enter a valid URL (include http/https).''"

definition msg_not_html :: pystr where
  "msg_not_html = str ''URL does not appear to be an HTML article.''"

definition msg_fetch_failed :: pystr where
  "msg_fetch_failed =
     str ''Failed to download the content of the URL. Try another link or check the URL.''"

definition msg_download_failed :: pystr where
  "msg_download_failed =
     str ''Failed to download article content (article.download()). Try another URL.''"

definition msg_not_retrieved :: pystr where
  "msg_not_retrieved = str ''Could not retrieve the article content. Try a different URL.''"

definition msg_parse_failed :: pystr where
  "msg_parse_failed = str ''Article parsing failed. Try another URL.''"

definition msg_empty_text :: pystr where
  "msg_empty_text = str ''Article text is empty or could not be extracted. Try another link.''"

text \<open>
  \<open>resp.raise_for_status()\<close> raises \<open>HTTPError\<close>, a \<open>RequestException\<close>, on a
  4xx or 5xx status code.
\<close>

definition raise_for_status :: "nat \<Rightarrow> bool" where
  "raise_for_status status_code \<longleftrightarrow> 400 \<le> status_code \<and> status_code < 600"

text \<open>\<open>resp.headers.get("Content-Type", "")\<close>\<close>

definition content_type_of :: "pystr option \<Rightarrow> pystr" where
  "content_type_of header = (case header of None \<Rightarrow> [] | Some v \<Rightarrow> v)"

text \<open>\<open>title = article.title or "Untitled"\<close>\<close>

definition title_field :: "pystr \<Rightarrow> pystr" where
  "title_field t = (if t = [] then str ''Untitled'' else t)"

text \<open>
  \<open>authors = ', '.join(article.authors) if article.authors else get_website_name(url)\<close>
\<close>

definition authors_field :: "world \<Rightarrow> pystr list \<Rightarrow> pystr \<Rightarrow> py_error + pystr" where
  "authors_field W article_authors url =
     (if article_authors \<noteq> [] then Inr (join (str '', '') article_authors)
      else get_website_name W url)"

text \<open>
  \<^verbatim>\<open>publish_date = "N/A"
  try:
      if article.publish_date:
          publish_date = article.publish_date.strftime('%B %d, %Y')
  except Exception:
      publish_date = "N/A"\<close>
\<close>

definition publish_date_field :: "publish_date \<Rightarrow> pystr" where
  "publish_date_field d =
     (case d of No_date \<Rightarrow> str ''N/A'' | Date_formatted f \<Rightarrow> f | Date_raises \<Rightarrow> str ''N/A'')"

text \<open>\<open>top_image = article.top_image if getattr(article, "top_image", None) else None\<close>\<close>

definition top_image_field :: "pystr option \<Rightarrow> pystr option" where
  "top_image_field i = (case i of None \<Rightarrow> None | Some u \<Rightarrow> if u = [] then None else Some u)"

text \<open>
  Lines 100 to 154: the article is downloaded and parsed. \<open>nlp()\<close> is tried and its
  failure only logged; the fields are computed in the order of the source, so an
  exception of \<open>get_website_name\<close> precedes the test of the text.
\<close>

definition present :: "world \<Rightarrow> pystr \<Rightarrow> article \<Rightarrow> effect list \<Rightarrow> effect list \<times> response" where
  "present W url a effs =
     (let effs1 = effs @ [Article_nlp] @ (if nlp_raises a then [Log_warning] else [])
      in case authors_field W (art_authors a) url of
           Inl e \<Rightarrow> (effs1, Uncaught e)
         | Inr authors_value \<Rightarrow>
             (let article_text = strip (case art_text a of None \<Rightarrow> [] | Some t \<Rightarrow> t)
              in if article_text = [] then (effs1, Redirect_index msg_empty_text)
                 else
                   (let outcome = textblob_polarity W article_text;
                        effs2 = effs1 @ [TextBlob_call article_text] @
                                (if outcome = None then [Log_warning] else [])
                    in (effs2,
                        Render_result
                          \<lparr>title = title_field (art_title a),
                           authors = authors_value,
                           publish_date = publish_date_field (art_publish_date a),
                           summary = summarize article_text,
                           top_image = top_image_field (art_top_image a),
                           sentiment = sentiment_label (polarity_of outcome),
                           rendered_at = now W\<rparr>))))"

text \<open>Lines 80 to 98: \<open>download()\<close>, the \<open>is_downloaded\<close> flag, \<open>parse()\<close>.\<close>

definition extract_article :: "world \<Rightarrow> pystr \<Rightarrow> effect list \<Rightarrow> effect list \<times> response" where
  "extract_article W url effs =
     (let a = newspaper W url;
          effs1 = effs @ [Article_download url]
      in if download_raises a then (effs1 @ [Log_error], Redirect_index msg_download_failed)
         else if \<not> is_downloaded a
         then (effs1 @ [Log_warning], Redirect_index msg_not_retrieved)
         else if parse_raises a
         then (effs1 @ [Article_parse, Log_error], Redirect_index msg_parse_failed)
         else present W url a (effs1 @ [Article_parse]))"

text \<open>Lines 60 to 77, and line 157 for GET.\<close>

definition index :: "world \<Rightarrow> request \<Rightarrow> effect list \<times> response" where
  "index W req =
     (case request_method req of
        GET \<Rightarrow> ([], Render_form (now W))
      | POST \<Rightarrow>
          (let url = strip (case form_url req of None \<Rightarrow> [] | Some u \<Rightarrow> u)
           in if \<not> validators_url W url then ([], Redirect_index msg_invalid_url)
              else
                (case requests_get W url of
                   RequestException \<Rightarrow>
                     ([Requests_get url, Log_warning], Redirect_index msg_fetch_failed)
                 | Response status_code header \<Rightarrow>
                     if raise_for_status status_code
                     then ([Requests_get url, Log_warning], Redirect_index msg_fetch_failed)
                     else if \<not> contains (content_type_of header) (str ''text/html'')
                     then ([Requests_get url], Redirect_index msg_not_html)
                     else extract_article W url [Requests_get url])))"

section \<open>The stages of a POST request, as the specification lists them\<close>

text \<open>
  The specification names six stages (validate, probe, download, downloaded-flag check,
  parse, non-empty text) and one failure message for each way a stage can fail. These
  definitions follow the specification's words; the theorems compare them with \<open>index\<close>.
\<close>

datatype stage = Validate | Probe | Download | Downloaded_flag | Parse | Nonempty_text

definition submitted_url :: "request \<Rightarrow> pystr" where
  "submitted_url req = strip (case form_url req of None \<Rightarrow> [] | Some u \<Rightarrow> u)"

definition extracted_text :: "world \<Rightarrow> request \<Rightarrow> pystr" where
  "extracted_text W req =
     strip (case art_text (newspaper W (submitted_url req)) of None \<Rightarrow> [] | Some t \<Rightarrow> t)"

fun stage_ok :: "world \<Rightarrow> request \<Rightarrow> stage \<Rightarrow> bool" where
  "stage_ok W req Validate = validators_url W (submitted_url req)"
| "stage_ok W req Probe =
     (case requests_get W (submitted_url req) of
        RequestException \<Rightarrow> False
      | Response status_code header \<Rightarrow>
          \<not> raise_for_status status_code \<and> contains (content_type_of header) (str ''text/html''))"
| "stage_ok W req Download = (\<not> download_raises (newspaper W (submitted_url req)))"
| "stage_ok W req Downloaded_flag = is_downloaded (newspaper W (submitted_url req))"
| "stage_ok W req Parse = (\<not> parse_raises (newspaper W (submitted_url req)))"
| "stage_ok W req Nonempty_text = (extracted_text W req \<noteq> [])"

fun stage_message :: "world \<Rightarrow> request \<Rightarrow> stage \<Rightarrow> pystr" where
  "stage_message W req Validate = msg_invalid_url"
| "stage_message W req Probe =
     (case requests_get W (submitted_url req) of
        RequestException \<Rightarrow> msg_fetch_failed
      | Response status_code header \<Rightarrow>
          if raise_for_status status_code then msg_fetch_failed else msg_not_html)"
| "stage_message W req Download = msg_download_failed"
| "stage_message W req Downloaded_flag = msg_not_retrieved"
| "stage_message W req Parse = msg_parse_failed"
| "stage_message W req Nonempty_text = msg_empty_text"

definition stages :: "stage list" where
  "stages = [Validate, Probe, Download, Downloaded_flag, Parse, Nonempty_text]"

definition first_failure :: "world \<Rightarrow> request \<Rightarrow> stage option" where
  "first_failure W req = find (\<lambda>s. \<not> stage_ok W req s) stages"

text \<open>
  The standard library parses the submitted URL, where the handler consults it (the
  article has no authors).
\<close>

definition website_name_ok :: "world \<Rightarrow> request \<Rightarrow> bool" where
  "website_name_ok W req \<longleftrightarrow>
     (art_authors (newspaper W (submitted_url req)) = [] \<longrightarrow>
      urlparse_netloc W (submitted_url req) \<noteq> Inl ValueError)"




section \<open>Example requests\<close>

text \<open>
  One request that succeeds (an article without authors at
  \<open>https://www.example.com/story\<close>, submitted with surrounding blanks) and one
  article whose text is blank although its other fields are present.
\<close>

definition example_url :: pystr where
  "example_url = str ''https://www.example.com/story''"

definition example_article :: article where
  "example_article =
     \<lparr>download_raises = False, is_downloaded = True, parse_raises = False, nlp_raises = True,
      art_title = str ''Story'', art_authors = [], art_publish_date = No_date,
      art_text = Some (str '' A. B. C. D. E. F. ''), art_top_image = None\<rparr>"

definition example_world :: world where
  "example_world =
     \<lparr>validators_url = (\<lambda>u. u = example_url),
      requests_get = (\<lambda>u. Response 200 (Some (str ''text/html; charset=utf-8''))),
      newspaper = (\<lambda>u. example_article),
      textblob_polarity = (\<lambda>t. Some (1 / 2)),
      bracketed_host_ok = (\<lambda>h. False),
      nfkc = (\<lambda>s. s),
      now = 0\<rparr>"

definition example_request :: request where
  "example_request =
     \<lparr>request_method = POST, form_url = Some (str '' https://www.example.com/story '')\<rparr>"

definition blank_article :: article where
  "blank_article =
     \<lparr>download_raises = False, is_downloaded = True, parse_raises = False, nlp_raises = False,
      art_title = str ''Story'', art_authors = [str ''Ann''],
      art_publish_date = Date_formatted (str ''January 01, 2024''),
      art_text = Some (str ''   ''),
      art_top_image = Some (str ''https://www.example.com/a.png'')\<rparr>"

definition blank_world :: world where
  "blank_world = example_world\<lparr>newspaper := \<lambda>u. blank_article\<rparr>"




section \<open>Lemmas on splitting, trimming and joining\<close>

lemma split_on_not_Nil: "split_on c s \<noteq> []"
  by (induction s) (auto split: list.splits)

lemma split_on_no_sep: "c \<notin> set s \<Longrightarrow> split_on c s = [s]"
  by (induction s) auto

lemma split_on_append_sep: "c \<notin> set x \<Longrightarrow> split_on c (x @ c # r) = x # split_on c r"
  by (induction x) auto

lemma split_on_fragments: "w \<in> set (split_on c s) \<Longrightarrow> c \<notin> set w"
  by (induction s arbitrary: w) (auto split: if_splits list.splits)

lemma split_on_chars: "w \<in> set (split_on c s) \<Longrightarrow> x \<in> set w \<Longrightarrow> x \<in> set s"
  by (induction s arbitrary: w) (fastforce split: if_splits list.splits)+

lemma split_on_covers: "x \<in> set s \<Longrightarrow> x \<noteq> c \<Longrightarrow> \<exists>w \<in> set (split_on c s). x \<in> set w"
  by (induction s) (auto split: if_splits list.splits)

lemma rstrip_Nil_iff: "rstrip s = [] \<longleftrightarrow> (\<forall>x \<in> set s. isspace x)"
  by (auto simp: rstrip_def)

lemma set_rstrip: "set (rstrip s) \<subseteq> set s"
  unfolding rstrip_def using set_dropWhileD by fastforce

lemma strip_Nil_iff: "strip s = [] \<longleftrightarrow> (\<forall>x \<in> set s. isspace x)"
proof
  assume "strip s = []"
  then have a: "\<forall>x \<in> set (rstrip s). isspace x"
    by (simp add: strip_def lstrip_def)
  have "rstrip s = []"
  proof (rule ccontr)
    assume "rstrip s \<noteq> []"
    then have "rev s \<noteq> []" "dropWhile isspace (rev s) \<noteq> []" by (auto simp: rstrip_def)
    then have "\<not> isspace (hd (dropWhile isspace (rev s)))" by (simp add: hd_dropWhile)
    moreover have "hd (dropWhile isspace (rev s)) \<in> set (rstrip s)"
      using \<open>dropWhile isspace (rev s) \<noteq> []\<close> by (simp add: rstrip_def)
    ultimately show False using a by blast
  qed
  then show "\<forall>x \<in> set s. isspace x" by (simp add: rstrip_Nil_iff)
next
  assume "\<forall>x \<in> set s. isspace x"
  then have "rstrip s = []" by (simp add: rstrip_Nil_iff)
  then show "strip s = []" by (simp add: strip_def lstrip_def)
qed

lemma set_strip: "set (strip s) \<subseteq> set s"
proof -
  have "set (strip s) \<subseteq> set (rstrip s)"
    unfolding strip_def lstrip_def using set_dropWhileD by fastforce
  then show ?thesis using set_rstrip by blast
qed

lemma rstrip_Cons: "rstrip (x # s) = (if rstrip s = [] \<and> isspace x then [] else x # rstrip s)"
  by (auto simp: rstrip_def dropWhile_append)

lemma strip_space_Cons: "isspace x \<Longrightarrow> strip (x # s) = strip s"
  by (simp add: strip_def rstrip_Cons lstrip_def)

lemma strip_unchanged:
  "s \<noteq> [] \<Longrightarrow> \<not> isspace (hd s) \<Longrightarrow> \<not> isspace (last s) \<Longrightarrow> strip s = s"
proof -
  assume a: "s \<noteq> []" "\<not> isspace (hd s)" "\<not> isspace (last s)"
  then have "dropWhile isspace (rev s) = rev s"
    by (cases "rev s") (auto simp: last_rev hd_rev)
  then have "rstrip s = s" by (simp add: rstrip_def)
  moreover have "dropWhile isspace s = s" using a by (cases s) auto
  ultimately show ?thesis by (simp add: strip_def lstrip_def)
qed

lemma strip_ends:
  assumes "strip s \<noteq> []"
  shows "\<not> isspace (hd (strip s)) \<and> \<not> isspace (last (strip s))"
proof -
  have r: "rstrip s \<noteq> []" using assms by (auto simp: strip_def lstrip_def)
  then have d: "dropWhile isspace (rev s) \<noteq> []" by (simp add: rstrip_def)
  then have "\<not> isspace (hd (dropWhile isspace (rev s)))" by (simp add: hd_dropWhile)
  then have l: "\<not> isspace (last (rstrip s))" using d by (simp add: rstrip_def last_rev)
  have h: "\<not> isspace (hd (strip s))"
    using assms by (simp add: strip_def lstrip_def hd_dropWhile)
  obtain ys zs where yz: "rstrip s = ys @ zs" "strip s = zs"
    unfolding strip_def lstrip_def
    by (metis takeWhile_dropWhile_id)
  then have "last (strip s) = last (rstrip s)" using assms by simp
  then show ?thesis using h l by simp
qed

lemma strip_idem: "strip (strip s) = strip s"
proof (cases "strip s = []")
  case True
  have "strip [] = []" by (simp add: strip_def lstrip_def rstrip_def)
  with True show ?thesis by simp
next
  case False
  then show ?thesis using strip_ends [OF False] by (simp add: strip_unchanged)
qed


lemma join_Nil_iff: "\<forall>s \<in> set ss. s \<noteq> [] \<Longrightarrow> join sep ss = [] \<longleftrightarrow> ss = []"
  by (induction sep ss rule: join.induct) auto

lemma sentences_nonempty_elems: "s \<in> set (sentences t) \<Longrightarrow> s \<noteq> []"
  by (auto simp: sentences_def)

lemma sentences_stripped: "s \<in> set (sentences t) \<Longrightarrow> strip s = s"
  by (auto simp: sentences_def strip_idem)

lemma sentences_no_period: "s \<in> set (sentences t) \<Longrightarrow> period \<notin> set s"
  using split_on_fragments set_strip by (fastforce simp: sentences_def)

lemma sentences_Nil_iff: "sentences t = [] \<longleftrightarrow> (\<forall>x \<in> set t. x = period \<or> isspace x)"
proof
  assume a: "sentences t = []"
  show "\<forall>x \<in> set t. x = period \<or> isspace x"
  proof
    fix x assume x: "x \<in> set t"
    show "x = period \<or> isspace x"
    proof (cases "x = period")
      case False
      then obtain w where w: "w \<in> set (split_on period t)" "x \<in> set w"
        using split_on_covers x by blast
      from a w(1) have "strip w = []"
        by (auto simp: sentences_def filter_empty_conv)
      then show ?thesis using w(2) by (simp add: strip_Nil_iff)
    qed simp
  qed
next
  assume a: "\<forall>x \<in> set t. x = period \<or> isspace x"
  have "strip w = []" if w: "w \<in> set (split_on period t)" for w
  proof -
    have "\<forall>x \<in> set w. isspace x"
      using a split_on_chars [OF w] split_on_fragments [OF w] by metis
    then show ?thesis by (simp add: strip_Nil_iff)
  qed
  then show "sentences t = []" by (simp add: sentences_def filter_empty_conv)
qed

lemma split_on_space_Cons:
  "x \<noteq> c \<Longrightarrow> split_on c (x # r) = (x # hd (split_on c r)) # tl (split_on c r)"
  using split_on_not_Nil [of c r] by (cases "split_on c r") auto

lemma sentences_join:
  "\<forall>s \<in> set ss. strip s = s \<and> s \<noteq> [] \<and> period \<notin> set s \<Longrightarrow>
   sentences (join (str ''. '') ss) = ss"
proof (induction "str ''. ''" ss rule: join.induct)
  case 1
  then show ?case by (simp add: sentences_def strip_def lstrip_def rstrip_def)
next
  case (2 x)
  then show ?case by (simp add: sentences_def split_on_no_sep)
next
  case (3 x y ys)
  let ?r = "join (str ''. '') (y # ys)"
  have sep: "str ''. '' = [period, 32]" by (simp add: str_def period_def)
  have sp: "isspace 32" "32 \<noteq> period" by (simp_all add: isspace_def period_def)
  have ih: "sentences ?r = y # ys" using 3 by simp
  obtain w ws where w: "split_on period ?r = w # ws"
    using split_on_not_Nil by (cases "split_on period ?r") auto
  have "split_on period (x @ str ''. '' @ ?r) = x # (32 # w) # ws"
    using 3(2) w sp(2) by (simp add: sep split_on_append_sep)
  then have "sentences (x @ str ''. '' @ ?r) = x # sentences ?r"
    using 3(2) w sp(1) by (simp add: sentences_def strip_space_Cons)
  then show ?case using ih by simp
qed

lemma summarize_sentences:
  "sentences t \<noteq> [] \<Longrightarrow>
   summarize t = join (str ''. '') (take max_summarized_sentences (sentences t))"
proof -
  assume a: "sentences t \<noteq> []"
  let ?ss = "take max_summarized_sentences (sentences t)"
  have "?ss \<noteq> []" using a by (simp add: max_summarized_sentences_def)
  moreover have "\<forall>s \<in> set ?ss. s \<noteq> []"
    using sentences_nonempty_elems by (meson in_set_takeD)
  ultimately have "join (str ''. '') ?ss \<noteq> []" by (simp add: join_Nil_iff)
  then show ?thesis by (simp add: summarize_def Let_def)
qed

lemma summarize_fallback: "sentences t = [] \<Longrightarrow> summarize t = fallback_summary t"
  by (simp add: summarize_def)

lemma summarize_no_period:
  assumes "period \<notin> set t" "strip t \<noteq> []"
  shows "summarize t = strip t"
proof -
  have "sentences t = [strip t]" using assms by (simp add: sentences_def split_on_no_sep)
  then show ?thesis using assms(2) by (simp add: summarize_sentences max_summarized_sentences_def)
qed

lemma summarize_idem: "summarize (summarize t) = summarize t"
proof (cases "sentences t = []")
  case True
  let ?f = "fallback_summary t"
  have "\<forall>x \<in> set ?f. x = period \<or> isspace x"
    using True by (auto simp: sentences_Nil_iff fallback_summary_def str_def period_def dest: in_set_takeD)
  then have "summarize ?f = fallback_summary ?f"
    by (simp add: summarize_fallback sentences_Nil_iff)
  moreover have "fallback_summary ?f = ?f"
    by (simp add: fallback_summary_def str_def)
  ultimately show ?thesis using True by (simp add: summarize_fallback)
next
  case False
  let ?ss = "take max_summarized_sentences (sentences t)"
  have "\<forall>s \<in> set ?ss. strip s = s \<and> s \<noteq> [] \<and> period \<notin> set s"
    using sentences_nonempty_elems sentences_stripped sentences_no_period
    by (meson in_set_takeD)
  then have s: "sentences (join (str ''. '') ?ss) = ?ss" by (rule sentences_join)
  have "?ss \<noteq> []" using False by (simp add: max_summarized_sentences_def)
  then have "summarize (join (str ''. '') ?ss) = join (str ''. '') ?ss"
    by (simp add: summarize_sentences s)
  then show ?thesis using False by (simp add: summarize_sentences)
qed


lemma take_fallback: "length t > 800 \<Longrightarrow> fallback_summary t = take 800 t @ str ''...''"
  by (simp add: fallback_summary_def)


lemma summarize_not_Nil: "t \<noteq> [] \<Longrightarrow> summarize t \<noteq> []"
proof (cases "sentences t = []")
  case True
  assume "t \<noteq> []"
  then show ?thesis using True by (simp add: summarize_fallback fallback_summary_def)
next
  case False
  let ?ss = "take max_summarized_sentences (sentences t)"
  have "?ss \<noteq> []" using False by (simp add: max_summarized_sentences_def)
  moreover have "\<forall>s \<in> set ?ss. s \<noteq> []"
    using sentences_nonempty_elems by (meson in_set_takeD)
  ultimately have "join (str ''. '') ?ss \<noteq> []" by (simp add: join_Nil_iff)
  then show ?thesis using False by (simp add: summarize_sentences)
qed

lemma example_split:
  "split_on period (str ''A. B. C. D. E. F.'') =
     [[65], [32, 66], [32, 67], [32, 68], [32, 69], [32, 70], []]"
  by (simp add: str_def period_def)

lemma example_sentences:
  "sentences (str ''A. B. C. D. E. F.'') = [[65], [66], [67], [68], [69], [70]]"
  unfolding sentences_def example_split
  by (simp add: strip_def lstrip_def rstrip_def isspace_def)

lemma example_summary: "summarize (str ''A. B. C. D. E. F.'') = str ''A. B. C. D. E''"
  unfolding summarize_def example_sentences
  by (simp add: max_summarized_sentences_def str_def)

lemma long_word_summary: "summarize (replicate 801 97) = replicate 801 97"
proof -
  have "\<not> isspace 97" by (simp add: isspace_def)
  then have "strip (replicate 801 97) = replicate 801 97"
    by (simp add: strip_unchanged)
  moreover have "period \<notin> set (replicate 801 97)" by (simp add: period_def)
  ultimately show ?thesis using summarize_no_period [of "replicate 801 97"] by simp
qed

section \<open>The claims about the summarizer\<close>

text \<open>
  C1, as the specification states it, fails: a text without any period that is not
  all whitespace is one fragment, so the sentence path returns it whole. At 801 letters
  \<open>a\<close> the summary is the text itself, not its first 800 characters and an ellipsis.
\<close>

theorem long_text_without_period_counterexample:
  "period \<notin> set (replicate 801 97) \<and> length (replicate 801 (97::nat)) > 800 \<and>
   summarize (replicate 801 97) \<noteq> take 800 (replicate 801 97) @ str ''...''"
proof -
  have "length (replicate 801 (97::nat)) \<noteq> length (take 800 (replicate 801 (97::nat)) @ str ''...'')"
    by (simp add: str_def)
  then have "replicate 801 (97::nat) \<noteq> take 800 (replicate 801 97) @ str ''...''"
    by metis
  then show ?thesis by (simp add: long_word_summary period_def)
qed

text \<open>
  C1, amended: a text of more than 800 characters in which no fragment survives
  trimming (it holds only periods and whitespace) is summarized as its first 800
  characters followed by \<open>...\<close>; a text without a period that is not all whitespace is
  summarized as its trimmed self, whatever its length.
\<close>

theorem summary_of_text_without_sentences:
  "((\<forall>x \<in> set t. x = period \<or> isspace x) \<and> length t > 800 \<longrightarrow>
      summarize t = take 800 t @ str ''...'') \<and>
   (period \<notin> set t \<and> strip t \<noteq> [] \<longrightarrow> summarize t = strip t)"
  by (simp add: summarize_no_period summarize_fallback sentences_Nil_iff take_fallback)

theorem summary_of_text_without_sentences_witness:
  "set (replicate 801 period) = {period} \<and>
   length (replicate 801 period) > 800 \<and>
   summarize (replicate 801 period) = replicate 800 period @ str ''...'' \<and>
   period \<notin> set (str ''abc'') \<and> strip (str ''abc'') \<noteq> [] \<and>
   summarize (str ''abc'') = str ''abc''"
proof -
  have s: "strip (str ''abc'') = str ''abc''"
    by (simp add: strip_def lstrip_def rstrip_def isspace_def str_def)
  have p: "period \<notin> set (str ''abc'')" by (simp add: str_def period_def)
  have n: "str ''abc'' \<noteq> []" by (simp add: str_def)
  show ?thesis
    using summary_of_text_without_sentences [of "replicate 801 period"] summary_of_text_without_sentences [of "str ''abc''"] s p n
    by simp
qed



text \<open>
  C8: the summary is a function of the text (equal texts, equal summaries), and
  summarizing a summary returns it unchanged.
\<close>

theorem summarize_deterministic_idempotent:
  "(t1 = t2 \<longrightarrow> summarize t1 = summarize t2) \<and> summarize (summarize t) = summarize t"
  by (simp add: summarize_idem)

theorem summarize_deterministic_idempotent_witness:
  "str ''A. B. C. D. E. F.'' = str ''A. B. C. D. E. F.'' \<and>
   summarize (str ''A. B. C. D. E'') = str ''A. B. C. D. E''"
  using summarize_deterministic_idempotent [of "str ''A. B. C. D. E. F.''" "str ''A. B. C. D. E. F.''" "str ''A. B. C. D. E. F.''"]
  by (simp add: example_summary)

section \<open>Lemmas on the request handler\<close>

lemma index_post:
  assumes "request_method req = POST"
  shows "snd (index W req) =
     (let url = submitted_url req; a = newspaper W url in
      if \<not> stage_ok W req Validate then Redirect_index msg_invalid_url
      else if \<not> stage_ok W req Probe then Redirect_index (stage_message W req Probe)
      else if \<not> stage_ok W req Download then Redirect_index msg_download_failed
      else if \<not> stage_ok W req Downloaded_flag then Redirect_index msg_not_retrieved
      else if \<not> stage_ok W req Parse then Redirect_index msg_parse_failed
      else (case authors_field W (art_authors a) url of
              Inl e \<Rightarrow> Uncaught e
            | Inr authors_value \<Rightarrow>
                if \<not> stage_ok W req Nonempty_text then Redirect_index msg_empty_text
                else Render_result
                       \<lparr>title = title_field (art_title a),
                        authors = authors_value,
                        publish_date = publish_date_field (art_publish_date a),
                        summary = summarize (extracted_text W req),
                        top_image = top_image_field (art_top_image a),
                        sentiment = sentiment_label
                          (polarity_of (textblob_polarity W (extracted_text W req))),
                        rendered_at = now W\<rparr>))"
  using assms
  by (auto simp: index_def extract_article_def present_def submitted_url_def
      extracted_text_def Let_def split: probe.splits sum.splits)

lemma index_get: "request_method req = GET \<Longrightarrow> index W req = ([], Render_form (now W))"
  by (simp add: index_def)

lemma render_is_post: "snd (index W req) = Render_result r \<Longrightarrow> request_method req = POST"
  by (cases "request_method req") (auto simp: index_get)

lemma index_render:
  assumes "snd (index W req) = Render_result r"
  shows "stage_ok W req Validate \<and> stage_ok W req Probe \<and> stage_ok W req Download \<and>
         stage_ok W req Downloaded_flag \<and> stage_ok W req Parse \<and>
         stage_ok W req Nonempty_text \<and>
         authors_field W (art_authors (newspaper W (submitted_url req))) (submitted_url req) =
           Inr (authors r) \<and>
         summary r = summarize (extracted_text W req) \<and>
         sentiment r =
           sentiment_label (polarity_of (textblob_polarity W (extracted_text W req)))"
proof -
  have p: "request_method req = POST" using assms by (rule render_is_post)
  show ?thesis
    using assms unfolding index_post [OF p] Let_def
    by (auto split: if_splits sum.splits)
qed

lemma example_submitted_url: "submitted_url example_request = example_url"
  by (simp add: submitted_url_def example_request_def example_url_def str_def
      strip_def lstrip_def rstrip_def isspace_def)

lemma example_strip_scheme:
  "strip_scheme (str ''https://www.example.com/story'') = str ''//www.example.com/story''"
  by (simp add: strip_scheme_def str_def scheme_char_def ascii_alpha_def Let_def)

lemma example_netloc: "urlparse_netloc W example_url = Inr (str ''www.example.com'')"
proof -
  have a: "filter (\<lambda>c. \<not> unsafe_url_byte c) (dropWhile c0_control_or_space example_url) =
           str ''https://www.example.com/story''"
    by (simp add: example_url_def str_def unsafe_url_byte_def c0_control_or_space_def)
  have b: "splitnetloc (str ''//www.example.com/story'') = str ''www.example.com''"
    by (simp add: splitnetloc_def str_def)
  have c: "take 2 (str ''//www.example.com/story'') = str ''//''"
    by (simp add: str_def)
  have d: "91 \<notin> set (str ''www.example.com'')" "93 \<notin> set (str ''www.example.com'')"
    by (simp_all add: str_def)
  have e: "checknetloc_ok W (str ''www.example.com'')"
    by (simp add: checknetloc_ok_def str_def)
  show ?thesis
    unfolding urlparse_netloc_def a example_strip_scheme Let_def c b
    using d e by simp
qed

lemma example_website_name: "get_website_name W example_url = Inr (str ''example.com'')"
  by (simp add: get_website_name_def example_netloc) (simp add: startswith_def str_def)

lemma example_extracted_text:
  "extracted_text example_world example_request = str ''A. B. C. D. E. F.''"
  by (simp add: extracted_text_def example_world_def example_article_def str_def
      strip_def lstrip_def rstrip_def isspace_def)

lemma example_content_type:
  "contains (content_type_of (Some (str ''text/html; charset=utf-8''))) (str ''text/html'')"
  by (simp add: content_type_of_def str_def startswith_def)

lemma example_stages:
  "stage_ok example_world example_request Validate"
  "stage_ok example_world example_request Probe"
  "stage_ok example_world example_request Download"
  "stage_ok example_world example_request Downloaded_flag"
  "stage_ok example_world example_request Parse"
  "stage_ok example_world example_request Nonempty_text"
  using example_content_type
  by (simp_all add: example_submitted_url example_extracted_text)
     (simp_all add: example_world_def example_article_def raise_for_status_def str_def)

lemma example_authors:
  "authors_field example_world (art_authors (newspaper example_world example_url)) example_url =
     Inr (str ''example.com'')"
  by (simp add: authors_field_def example_website_name)
     (simp add: example_world_def example_article_def)

lemma example_index:
  "snd (index example_world example_request) =
     Render_result
       \<lparr>title = str ''Story'', authors = str ''example.com'', publish_date = str ''N/A'',
        summary = str ''A. B. C. D. E'', top_image = None,
        sentiment = str ''happy '' @ [128522], rendered_at = 0\<rparr>"
proof -
  have p: "request_method example_request = POST" by (simp add: example_request_def)
  have f: "title_field (art_title (newspaper example_world example_url)) = str ''Story''"
    "publish_date_field (art_publish_date (newspaper example_world example_url)) = str ''N/A''"
    "top_image_field (art_top_image (newspaper example_world example_url)) = None"
    "now example_world = 0"
    "sentiment_label (polarity_of (textblob_polarity example_world (str ''A. B. C. D. E. F.''))) =
       str ''happy '' @ [128522]"
    by (simp_all add: example_world_def example_article_def title_field_def
        publish_date_field_def top_image_field_def sentiment_label_def polarity_of_def str_def)
  show ?thesis
    unfolding index_post [OF p] Let_def
    by (simp add: example_stages example_submitted_url example_authors
        example_extracted_text example_summary f del: stage_ok.simps)
qed

lemma example_request_post: "request_method example_request = POST"
  by (simp add: example_request_def)

lemma authors_field_ok:
  assumes "website_name_ok W req"
  shows "\<exists>v. authors_field W (art_authors (newspaper W (submitted_url req))) (submitted_url req) =
           Inr v"
proof (cases "art_authors (newspaper W (submitted_url req)) = []")
  case True
  then have "urlparse_netloc W (submitted_url req) \<noteq> Inl ValueError"
    using assms by (simp add: website_name_ok_def)
  then obtain d where "urlparse_netloc W (submitted_url req) = Inr d"
    by (cases "urlparse_netloc W (submitted_url req)") (auto intro: py_error.exhaust)
  then show ?thesis using True by (simp add: authors_field_def get_website_name_def)
next
  case False
  then show ?thesis by (simp add: authors_field_def)
qed

lemma index_post_ok:
  assumes "request_method req = POST" "website_name_ok W req"
  shows "snd (index W req) =
     (if \<not> stage_ok W req Validate then Redirect_index (stage_message W req Validate)
      else if \<not> stage_ok W req Probe then Redirect_index (stage_message W req Probe)
      else if \<not> stage_ok W req Download then Redirect_index (stage_message W req Download)
      else if \<not> stage_ok W req Downloaded_flag
      then Redirect_index (stage_message W req Downloaded_flag)
      else if \<not> stage_ok W req Parse then Redirect_index (stage_message W req Parse)
      else if \<not> stage_ok W req Nonempty_text
      then Redirect_index (stage_message W req Nonempty_text)
      else Render_result
             \<lparr>title = title_field (art_title (newspaper W (submitted_url req))),
              authors = projr (authors_field W (art_authors (newspaper W (submitted_url req)))
                               (submitted_url req)),
              publish_date = publish_date_field (art_publish_date (newspaper W (submitted_url req))),
              summary = summarize (extracted_text W req),
              top_image = top_image_field (art_top_image (newspaper W (submitted_url req))),
              sentiment = sentiment_label
                (polarity_of (textblob_polarity W (extracted_text W req))),
              rendered_at = now W\<rparr>)"
proof -
  obtain v where v: "authors_field W (art_authors (newspaper W (submitted_url req)))
      (submitted_url req) = Inr v"
    using authors_field_ok [OF assms(2)] by blast
  show ?thesis
    unfolding index_post [OF assms(1)] Let_def v
    by (simp del: stage_ok.simps)
qed

lemma blank_stages:
  "stage_ok blank_world example_request Validate"
  "stage_ok blank_world example_request Probe"
  "stage_ok blank_world example_request Download"
  "stage_ok blank_world example_request Downloaded_flag"
  "stage_ok blank_world example_request Parse"
  using example_content_type
  by (simp_all add: example_submitted_url)
     (simp_all add: blank_world_def example_world_def blank_article_def raise_for_status_def)

lemma blank_text: "extracted_text blank_world example_request = []"
  by (simp add: extracted_text_def blank_world_def blank_article_def str_def
      strip_def lstrip_def rstrip_def isspace_def)

lemma blank_website: "website_name_ok blank_world example_request"
  by (simp add: website_name_ok_def blank_world_def blank_article_def)

lemma example_website: "website_name_ok example_world example_request"
  by (simp add: website_name_ok_def example_submitted_url example_netloc)










section \<open>The claims about the request handler\<close>

text \<open>
  C3: the label is decided by the sign of the polarity alone: positive gives the happy
  label, negative the sad one, zero the neutral one, and so does a classifier that raises
  (polarity 0.0); each label carries its glyph. The result page shows that label.
\<close>

theorem sentiment_label_of_polarity:
  "(0 < p \<longrightarrow> sentiment_label (polarity_of (Some p)) = str ''happy '' @ [128522]) \<and>
   (p < 0 \<longrightarrow> sentiment_label (polarity_of (Some p)) = str ''sad '' @ [128543]) \<and>
   (p = 0 \<longrightarrow> sentiment_label (polarity_of (Some p)) = str ''neutral '' @ [128528]) \<and>
   sentiment_label (polarity_of None) = str ''neutral '' @ [128528] \<and>
   (snd (index W req) = Render_result r \<longrightarrow>
      sentiment r = sentiment_label (polarity_of (textblob_polarity W (extracted_text W req))))"
  using index_render [of W req r]
  by (simp add: sentiment_label_def polarity_of_def)

theorem sentiment_label_of_polarity_witness:
  "(0::real) < 1 / 2 \<and> sentiment_label (polarity_of (Some (1 / 2))) = str ''happy '' @ [128522] \<and>
   - (1 / 2) < (0::real) \<and>
   sentiment_label (polarity_of (Some (- (1 / 2)))) = str ''sad '' @ [128543] \<and>
   sentiment_label (polarity_of (Some 0)) = str ''neutral '' @ [128528] \<and>
   snd (index example_world example_request) =
     Render_result
       \<lparr>title = str ''Story'', authors = str ''example.com'', publish_date = str ''N/A'',
        summary = str ''A. B. C. D. E'', top_image = None,
        sentiment = str ''happy '' @ [128522], rendered_at = 0\<rparr> \<and>
   sentiment_label
     (polarity_of (textblob_polarity example_world
        (extracted_text example_world example_request))) = str ''happy '' @ [128522]"
proof -
  let ?r = "\<lparr>title = str ''Story'', authors = str ''example.com'', publish_date = str ''N/A'',
        summary = str ''A. B. C. D. E'', top_image = None,
        sentiment = str ''happy '' @ [128522], rendered_at = 0\<rparr>"
  have a: "sentiment_label (polarity_of (Some (1 / 2))) = str ''happy '' @ [128522]"
    using sentiment_label_of_polarity [where p = "1 / 2"] by simp
  have b: "sentiment_label (polarity_of (Some (- (1 / 2)))) = str ''sad '' @ [128543]"
    using sentiment_label_of_polarity [where p = "- (1 / 2)"] by simp
  have c: "sentiment_label (polarity_of (Some 0)) = str ''neutral '' @ [128528]"
    using sentiment_label_of_polarity [where p = 0] by simp
  have d: "sentiment ?r =
      sentiment_label (polarity_of (textblob_polarity example_world
        (extracted_text example_world example_request)))"
    using sentiment_label_of_polarity [where W = example_world and req = example_request and r = ?r] example_index
    by blast
  show ?thesis using a b c d example_index by simp
qed




text \<open>
  C5: a POST request that passes validation, probe, download, flag check and parsing and
  whose article text is empty after trimming is redirected with the empty-content
  message, whatever the title, authors, date and image are. The URL is assumed to
  parse where \<open>get_website_name\<close> is called, which happens before the text is
  tested.
\<close>

theorem empty_text_rejected:
  assumes "request_method req = POST"
    and "stage_ok W req Validate" "stage_ok W req Probe" "stage_ok W req Download"
    and "stage_ok W req Downloaded_flag" "stage_ok W req Parse"
    and "extracted_text W req = []"
    and "website_name_ok W req"
  shows "snd (index W req) = Redirect_index msg_empty_text"
  using assms(2-7) unfolding index_post_ok [OF assms(1) assms(8)]
  by simp

theorem empty_text_rejected_witness:
  "request_method example_request = POST \<and>
   stage_ok blank_world example_request Validate \<and>
   stage_ok blank_world example_request Probe \<and>
   stage_ok blank_world example_request Download \<and>
   stage_ok blank_world example_request Downloaded_flag \<and>
   stage_ok blank_world example_request Parse \<and>
   extracted_text blank_world example_request = [] \<and>
   website_name_ok blank_world example_request \<and>
   art_title (newspaper blank_world (submitted_url example_request)) = str ''Story'' \<and>
   art_authors (newspaper blank_world (submitted_url example_request)) = [str ''Ann''] \<and>
   snd (index blank_world example_request) = Redirect_index msg_empty_text"
proof -
  have "snd (index blank_world example_request) = Redirect_index msg_empty_text"
    using empty_text_rejected [OF example_request_post blank_stages blank_text blank_website] .
  moreover have "art_title (newspaper blank_world (submitted_url example_request)) = str ''Story''"
    "art_authors (newspaper blank_world (submitted_url example_request)) = [str ''Ann'']"
    by (simp_all add: blank_world_def blank_article_def)
  ultimately show ?thesis
    using example_request_post blank_stages blank_text blank_website by blast
qed



text \<open>
  C7: after validation, a probe response without error status whose \<open>Content-Type\<close>
  lacks \<open>text/html\<close> is redirected with the not-an-article message, the probe
  being the only call made; a probe that raises, or answers with a 4xx or 5xx status, is
  redirected with the fetch-failure message.
\<close>

theorem probe_failure_rejected:
  assumes "request_method req = POST" "validators_url W (submitted_url req)"
  shows "(requests_get W (submitted_url req) = Response status_code header \<and>
          \<not> raise_for_status status_code \<and>
          \<not> contains (content_type_of header) (str ''text/html'') \<longrightarrow>
            index W req = ([Requests_get (submitted_url req)], Redirect_index msg_not_html)) \<and>
         (requests_get W (submitted_url req) = RequestException \<or>
          requests_get W (submitted_url req) = Response status_code header \<and>
          raise_for_status status_code \<longrightarrow>
            index W req =
              ([Requests_get (submitted_url req), Log_warning], Redirect_index msg_fetch_failed))"
  using assms by (auto simp: index_def submitted_url_def)

theorem probe_failure_rejected_witness:
  "request_method example_request = POST \<and>
   validators_url example_world (submitted_url example_request) \<and>
   \<not> raise_for_status 200 \<and>
   \<not> contains (content_type_of (Some (str ''application/pdf''))) (str ''text/html'') \<and>
   index (example_world\<lparr>requests_get := \<lambda>u. Response 200 (Some (str ''application/pdf''))\<rparr>)
     example_request = ([Requests_get example_url], Redirect_index msg_not_html) \<and>
   index (example_world\<lparr>requests_get := \<lambda>u. RequestException\<rparr>) example_request =
     ([Requests_get example_url, Log_warning], Redirect_index msg_fetch_failed) \<and>
   raise_for_status 404 \<and>
   index (example_world\<lparr>requests_get := \<lambda>u. Response 404 (Some (str ''text/html''))\<rparr>)
     example_request = ([Requests_get example_url, Log_warning], Redirect_index msg_fetch_failed)"
proof -
  let ?pdf = "example_world\<lparr>requests_get := \<lambda>u. Response 200 (Some (str ''application/pdf''))\<rparr>"
  let ?down = "example_world\<lparr>requests_get := \<lambda>u. RequestException\<rparr>"
  let ?missing = "example_world\<lparr>requests_get := \<lambda>u. Response 404 (Some (str ''text/html''))\<rparr>"
  have v: "validators_url example_world example_url" "validators_url ?pdf example_url"
    "validators_url ?down example_url" "validators_url ?missing example_url"
    by (simp_all add: example_world_def)
  have r: "\<not> raise_for_status 200" "raise_for_status 404"
    by (simp_all add: raise_for_status_def)
  have c: "\<not> contains (content_type_of (Some (str ''application/pdf''))) (str ''text/html'')"
    by (simp add: content_type_of_def str_def startswith_def)
  have 1: "index ?pdf example_request = ([Requests_get example_url], Redirect_index msg_not_html)"
    using probe_failure_rejected [of example_request ?pdf 200 "Some (str ''application/pdf'')"]
      example_request_post v(2) r(1) c
    by (simp add: example_submitted_url)
  have 2: "index ?down example_request =
      ([Requests_get example_url, Log_warning], Redirect_index msg_fetch_failed)"
    using probe_failure_rejected [of example_request ?down 0 None] example_request_post v(3)
    by (simp add: example_submitted_url)
  have 3: "index ?missing example_request =
      ([Requests_get example_url, Log_warning], Redirect_index msg_fetch_failed)"
    using probe_failure_rejected [of example_request ?missing 404 "Some (str ''text/html'')"]
      example_request_post v(4) r(2)
    by (simp add: example_submitted_url)
  show ?thesis
    using 1 2 3 r c v(1) example_request_post by (simp add: example_submitted_url)
qed

text \<open>
  C9: a POST request either passes all six stages and renders the result page, or is
  redirected with the message of its first failing stage; a result page is rendered
  exactly when every stage succeeds. The URL is assumed to parse where
  \<open>get_website_name\<close> is called.
\<close>

theorem post_outcome_by_first_failure:
  assumes "request_method req = POST" "website_name_ok W req"
  shows "(first_failure W req = None \<and> (\<exists>r. snd (index W req) = Render_result r) \<or>
          (\<exists>s. first_failure W req = Some s \<and>
               snd (index W req) = Redirect_index (stage_message W req s))) \<and>
         ((\<exists>r. snd (index W req) = Render_result r) \<longleftrightarrow> (\<forall>s. stage_ok W req s))"
proof -
  have all: "(\<forall>s. stage_ok W req s) \<longleftrightarrow>
      stage_ok W req Validate \<and> stage_ok W req Probe \<and> stage_ok W req Download \<and>
      stage_ok W req Downloaded_flag \<and> stage_ok W req Parse \<and> stage_ok W req Nonempty_text"
    by (metis stage.exhaust)
  show ?thesis
    unfolding all index_post_ok [OF assms] first_failure_def stages_def
    by (simp del: stage_ok.simps stage_message.simps)
qed

theorem post_outcome_by_first_failure_witness:
  "request_method example_request = POST \<and>
   website_name_ok example_world example_request \<and>
   first_failure example_world example_request = None \<and>
   snd (index example_world example_request) =
     Render_result
       \<lparr>title = str ''Story'', authors = str ''example.com'', publish_date = str ''N/A'',
        summary = str ''A. B. C. D. E'', top_image = None,
        sentiment = str ''happy '' @ [128522], rendered_at = 0\<rparr> \<and>
   website_name_ok blank_world example_request \<and>
   first_failure blank_world example_request = Some Nonempty_text \<and>
   snd (index blank_world example_request) = Redirect_index msg_empty_text"
proof -
  have a: "first_failure example_world example_request = None"
    using post_outcome_by_first_failure [OF example_request_post example_website] example_index by auto
  have "\<not> stage_ok blank_world example_request Nonempty_text"
    using blank_text by simp
  then have b: "first_failure blank_world example_request = Some Nonempty_text"
    using blank_stages by (simp add: first_failure_def stages_def del: stage_ok.simps)
  have c: "snd (index blank_world example_request) = Redirect_index msg_empty_text"
    using post_outcome_by_first_failure [OF example_request_post blank_website] b by auto
  show ?thesis
    using a b c example_request_post example_website blank_website example_index by blast
qed

text \<open>
  C10: the summary of an article text that is not empty after trimming is not empty: it
  is the join of the first five fragments when one survives, and otherwise the first 800
  characters of the text; so every rendered summary is non-empty.
\<close>

theorem summary_not_empty:
  "(strip raw \<noteq> [] \<longrightarrow>
      summarize (strip raw) \<noteq> [] \<and>
      (sentences (strip raw) \<noteq> [] \<longrightarrow>
         summarize (strip raw) = join (str ''. '') (take 5 (sentences (strip raw)))) \<and>
      (sentences (strip raw) = [] \<longrightarrow>
         summarize (strip raw) =
           take 800 (strip raw) @ (if length (strip raw) > 800 then str ''...'' else []))) \<and>
   (snd (index W req) = Render_result r \<longrightarrow> summary r \<noteq> [])"
proof -
  have "summary r \<noteq> []" if "snd (index W req) = Render_result r"
  proof -
    have "extracted_text W req \<noteq> []" "summary r = summarize (extracted_text W req)"
      using index_render [OF that] by simp_all
    then show ?thesis by (simp add: summarize_not_Nil)
  qed
  then show ?thesis
    using summarize_sentences [of "strip raw"] summarize_fallback [of "strip raw"]
    by (auto simp: summarize_not_Nil max_summarized_sentences_def fallback_summary_def)
qed

theorem summary_not_empty_witness:
  "strip (str '' A. B. C. D. E. F. '') = str ''A. B. C. D. E. F.'' \<and>
   str ''A. B. C. D. E. F.'' \<noteq> [] \<and>
   sentences (str ''A. B. C. D. E. F.'') \<noteq> [] \<and>
   summarize (str ''A. B. C. D. E. F.'') \<noteq> [] \<and>
   strip (str '' ... '') = str ''...'' \<and>
   sentences (str ''...'') = [] \<and>
   summarize (str ''...'') = str ''...'' \<and>
   snd (index example_world example_request) =
     Render_result
       \<lparr>title = str ''Story'', authors = str ''example.com'', publish_date = str ''N/A'',
        summary = str ''A. B. C. D. E'', top_image = None,
        sentiment = str ''happy '' @ [128522], rendered_at = 0\<rparr> \<and>
   str ''A. B. C. D. E'' \<noteq> []"
proof -
  let ?r = "\<lparr>title = str ''Story'', authors = str ''example.com'', publish_date = str ''N/A'',
        summary = str ''A. B. C. D. E'', top_image = None,
        sentiment = str ''happy '' @ [128522], rendered_at = 0\<rparr>"
  have s1: "strip (str '' A. B. C. D. E. F. '') = str ''A. B. C. D. E. F.''"
    by (simp add: str_def strip_def lstrip_def rstrip_def isspace_def)
  have s2: "strip (str '' ... '') = str ''...''"
    by (simp add: str_def strip_def lstrip_def rstrip_def isspace_def)
  have n1: "str ''A. B. C. D. E. F.'' \<noteq> []" and n2: "str ''...'' \<noteq> []"
    by (simp_all add: str_def)
  have e: "sentences (str ''...'') = []"
    by (simp add: sentences_Nil_iff str_def period_def)
  have a: "summarize (str ''A. B. C. D. E. F.'') \<noteq> []"
    using summary_not_empty [where raw = "str '' A. B. C. D. E. F. ''"] s1 n1 by simp
  have b: "summarize (str ''...'') = str ''...''"
    using summary_not_empty [where raw = "str '' ... ''"] s2 n2 e by (simp add: str_def)
  have c: "summary ?r \<noteq> []"
    using summary_not_empty [where W = example_world and req = example_request and r = ?r] example_index
    by blast
  show ?thesis using s1 s2 n1 e a b c example_index by (simp add: example_sentences)
qed

end
